theory Spec2Isabelle
  imports Complex_Main "HOL-Library.AList"
begin

section \<open>Python numbers\<close>

text \<open>
  A Python \<open>float\<close> is an IEEE-754 binary64 number. Every finite binary64 number is a
  rational, so a float is modelled by the \<^typ>\<open>real\<close> it denotes, and every arithmetic
  operation of the source is the exact operation followed by \<open>fl\<close>, rounding to the
  nearest number with a 53-bit significand, ties to the even significand. Numbers below
  \<open>2^-1022\<close> are rounded on the fixed subnormal grid. Infinities and NaN are not
  modelled: an operation whose result exceeds the binary64 range is outside this model.
  Comparisons of floats (and of a float with an \<open>int\<close>) are exact in Python, so they are
  the comparisons of \<^typ>\<open>real\<close>.
\<close>

fun bit_length :: "nat \<Rightarrow> nat" where
  "bit_length n = (if n = 0 then 0 else Suc (bit_length (n div 2)))"

declare bit_length.simps [simp del]

text \<open>Python's \<open>round(x)\<close> of a float: the nearest integer, a tie going to the even one.\<close>

definition py_round :: "real \<Rightarrow> int" where
  "py_round x = (let f = \<lfloor>x\<rfloor>; d = x - of_int f in
     if d < 1 / 2 then f else if 1 / 2 < d then f + 1 else if even f then f else f + 1)"

text \<open>Python's \<open>int(x)\<close> of a float truncates towards zero.\<close>

definition py_int :: "real \<Rightarrow> int" where
  "py_int x = (if 0 \<le> x then \<lfloor>x\<rfloor> else \<lceil>x\<rceil>)"

text \<open>\<open>expo x\<close> is the binary exponent \<open>e\<close> of a non-zero \<open>x\<close>: \<open>2^e \<le> \<bar>x\<bar> < 2^(e+1)\<close>.\<close>

definition expo :: "real \<Rightarrow> int" where
  "expo x = (let a = \<bar>x\<bar> in
     if 1 \<le> a then int (bit_length (nat \<lfloor>a\<rfloor>)) - 1
     else - int (bit_length (nat (\<lceil>1 / a\<rceil> - 1))))"

definition pow2 :: "int \<Rightarrow> real" where
  "pow2 e = (if 0 \<le> e then 2 ^ nat e else 1 / 2 ^ nat (- e))"

definition fl :: "real \<Rightarrow> real" where
  "fl x = (if x = 0 then 0
     else let u = pow2 (max (expo x) (- 1022) - 52) in of_int (py_round (x / u)) * u)"

datatype error =
    RuntimeError
  | ZeroDivisionError
  | ValueError
  | KeyError
  | LineStringError

definition fadd :: "real \<Rightarrow> real \<Rightarrow> real" where
  "fadd x y = fl (x + y)"

definition fsub :: "real \<Rightarrow> real \<Rightarrow> real" where
  "fsub x y = fl (x - y)"

definition fmul :: "real \<Rightarrow> real \<Rightarrow> real" where
  "fmul x y = fl (x * y)"

text \<open>Float division raises \<open>ZeroDivisionError\<close> on a zero divisor.\<close>

definition fdiv :: "real \<Rightarrow> real \<Rightarrow> error + real" where
  "fdiv x y = (if y = 0 then Inl ZeroDivisionError else Inr (fl (x / y)))"

text \<open>
  \<open>bind\<close> sequences two steps of which the first may raise: the exception of the first
  step is the result.
\<close>

definition bind :: "error + 'a \<Rightarrow> ('a \<Rightarrow> error + 'b) \<Rightarrow> error + 'b" where
  "bind m f = (case m of Inl e \<Rightarrow> Inl e | Inr x \<Rightarrow> f x)"

section \<open>Severity classification\<close>

text \<open>
  \<^verbatim>\<open>
  def classify_severity(rainfall_mm: float) -> str:
      if rainfall_mm < 10: return "low"
      if rainfall_mm < 25: return "moderate"
      if rainfall_mm < 50: return "high"
      return "critical"
  \<close>
\<close>

definition classify_severity :: "real \<Rightarrow> string" where
  "classify_severity rainfall_mm =
     (if rainfall_mm < 10 then ''low''
      else if rainfall_mm < 25 then ''moderate''
      else if rainfall_mm < 50 then ''high''
      else ''critical'')"

section \<open>Data model\<close>

text \<open>The pydantic models of the request and the response.\<close>

record LatLng =
  lat :: real
  lng :: real

datatype intervention = Road | Drain | Green | Restriction

record ScenarioRequest =
  scenarioName :: "string option"
  interventionType :: intervention
  rainfall :: int
  approxLength :: "real option"
  lanes :: "int option"
  roadPoints :: "LatLng list"
  origin :: "LatLng option"
  destination :: "LatLng option"

record TrafficResult =
  minutesChange :: real
  baselineMinutes :: "real option"
  scenarioMinutes :: "real option"

record FloodResult =
  baselineHighRiskCells :: int
  scenarioHighRiskCells :: int
  baselinePop :: int
  scenarioPop :: int

record ScenarioResponse =
  traffic :: TrafficResult
  flood :: FloodResult
  "notes" :: string

text \<open>
  A cell of the hotspot table: \<open>VNumpy v\<close> is a numpy scalar whose \<open>item()\<close> is the
  native value \<open>v\<close>, \<open>VOther s\<close> any other object, with \<open>str\<close> value \<open>s\<close>.
\<close>

datatype pval =
    VNone
  | VFloat real
  | VInt int
  | VStr string
  | VBool bool
  | VNumpy pval
  | VOther string

text \<open>
  A row of the GeoDataFrame \<open>flood_points\<close>: its point geometry \<open>(x, y)\<close>, that is
  (longitude, latitude), or no geometry, and its columns in order.
\<close>

record hotspot =
  geometry :: "(real \<times> real) option"
  columns :: "(string \<times> pval) list"

record AlertPoint =
  ap_lat :: "real option"
  ap_lng :: "real option"
  ap_properties :: "(string \<times> pval) list"

record alert =
  severity :: string
  affected_count :: int
  affected_points :: "AlertPoint list"
  message :: string
  recommended_actions :: "string list"
  rainfall_mm :: real

section \<open>The road network\<close>

text \<open>
  The road graph is a networkx \<open>MultiDiGraph\<close>: its nodes, and its edges with their
  \<open>travel_time\<close> in seconds; parallel edges are separate entries. Graphs are mutable
  objects: the store holds them, an address is an index into the store, and the global
  \<open>road_graph\<close> is an address (or \<open>None\<close>).
\<close>

type_synonym node = int

record graph =
  g_nodes :: "node list"
  g_edges :: "(node \<times> node \<times> real) list"

type_synonym store = "graph list"

text \<open>
  The process-wide data and the libraries the code calls. \<open>nearest_nodes g x y\<close> is
  \<open>ox.distance.nearest_nodes(g, X=[x], Y=[y])[0]\<close>, \<open>None\<close> when the call raises.
  \<open>within_buffer line r p\<close> says whether the point \<open>p\<close> lies within the line \<open>line\<close>
  buffered by \<open>r\<close> metres in EPSG:3857. The remaining fields are the functions of
  Python's \<open>math\<close> module.
\<close>

record env =
  flood_points :: "hotspot list option"
  road_graph :: "nat option"
  nearest_nodes :: "graph \<Rightarrow> real \<Rightarrow> real \<Rightarrow> node option"
  within_buffer :: "(real \<times> real) list \<Rightarrow> real \<Rightarrow> real \<times> real \<Rightarrow> bool"
  m_radians :: "real \<Rightarrow> real"
  m_sin :: "real \<Rightarrow> real"
  m_cos :: "real \<Rightarrow> real"
  m_sqrt :: "real \<Rightarrow> real"
  m_atan2 :: "real \<Rightarrow> real \<Rightarrow> real"
  m_pow :: "real \<Rightarrow> real \<Rightarrow> real"

section \<open>Helpers\<close>

text \<open>
  \<open>to_native\<close>: \<open>None\<close> stays, a value with \<open>item()\<close> is unwrapped, a native
  \<open>float\<close>, \<open>int\<close>, \<open>str\<close> or \<open>bool\<close> stays, anything else becomes its \<open>str\<close>.
\<close>

fun to_native :: "pval \<Rightarrow> pval" where
  "to_native VNone = VNone"
| "to_native (VNumpy v) = v"
| "to_native (VOther s) = VStr s"
| "to_native v = v"

text \<open>
  \<open>row_properties_safe\<close> builds a dict from the row, skipping the key \<open>geometry\<close>;
  assigning to a key that is present overwrites its value in place.
\<close>

fun row_properties_loop ::
  "(string \<times> pval) list \<Rightarrow> (string \<times> pval) list \<Rightarrow> (string \<times> pval) list" where
  "row_properties_loop [] d = d"
| "row_properties_loop ((k, v) # kvs) d =
     (if k = ''geometry'' then row_properties_loop kvs d
      else row_properties_loop kvs (AList.update k (to_native v) d))"

definition row_properties_safe :: "hotspot \<Rightarrow> (string \<times> pval) list" where
  "row_properties_safe row = row_properties_loop (columns row) []"

text \<open>
  \<open>sqrt\<close> of Python's \<open>math\<close> module raises \<open>ValueError\<close> on a negative argument.
\<close>

definition py_sqrt :: "env \<Rightarrow> real \<Rightarrow> error + real" where
  "py_sqrt E x = (if x < 0 then Inl ValueError else Inr (m_sqrt E x))"

definition distance_km :: "env \<Rightarrow> LatLng \<Rightarrow> LatLng \<Rightarrow> error + real" where
  "distance_km E a b =
     (let R = 6371;
          dlat = m_radians E (fsub (lat b) (lat a));
          dlon = m_radians E (fsub (lng b) (lng a));
          lat1 = m_radians E (lat a);
          lat2 = m_radians E (lat b);
          h = fadd (m_pow E (m_sin E (fl (dlat / 2))) 2)
                (fmul (fmul (m_cos E lat1) (m_cos E lat2))
                   (m_pow E (m_sin E (fl (dlon / 2))) 2))
      in bind (py_sqrt E h) (\<lambda>sh.
         bind (py_sqrt E (fsub 1 h)) (\<lambda>s1h.
           Inr (fmul R (fmul 2 (m_atan2 E sh s1h))))))"

fun length_loop :: "env \<Rightarrow> LatLng list \<Rightarrow> real \<Rightarrow> error + real" where
  "length_loop E (p # q # ps) tot =
     bind (distance_km E p q) (\<lambda>d. length_loop E (q # ps) (fadd tot d))"
| "length_loop E ps tot = Inr tot"

definition compute_length_from_points :: "env \<Rightarrow> LatLng list \<Rightarrow> error + real" where
  "compute_length_from_points E points =
     (if length points < 2 then Inr 0 else length_loop E points 0)"

section \<open>Routing\<close>

text \<open>
  \<open>G.add_edge(u, v, travel_time=t)\<close> on a \<open>MultiDiGraph\<close> adds the nodes that are
  missing and then a new parallel edge; no existing edge is changed.
\<close>

definition add_node :: "node \<Rightarrow> graph \<Rightarrow> graph" where
  "add_node n G = (if n \<in> set (g_nodes G) then G else G\<lparr>g_nodes := g_nodes G @ [n]\<rparr>)"

definition add_edge :: "node \<Rightarrow> node \<Rightarrow> real \<Rightarrow> graph \<Rightarrow> graph" where
  "add_edge u v t G =
     (let G' = add_node v (add_node u G) in G'\<lparr>g_edges := g_edges G' @ [(u, v, t)]\<rparr>)"

text \<open>\<open>road_graph.copy()\<close> allocates a new graph object with the same nodes and edges.\<close>

definition graph_copy :: "store \<Rightarrow> nat \<Rightarrow> nat \<times> store" where
  "graph_copy s a = (length s, s @ [s ! a])"

text \<open>
  \<^verbatim>\<open>
  def nearest_node(lat, lng):
      if road_graph is None: return None
      try: return ox.distance.nearest_nodes(road_graph, X=[lng], Y=[lat])[0]
      except Exception: return None
  \<close>
\<close>

definition nearest_node :: "env \<Rightarrow> store \<Rightarrow> real \<Rightarrow> real \<Rightarrow> node option" where
  "nearest_node E s la lo =
     (case road_graph E of None \<Rightarrow> None | Some a \<Rightarrow> nearest_nodes E (s ! a) lo la)"

text \<open>
  \<open>nx.shortest_path(G, u, v, weight="travel_time")\<close> followed by \<open>nx.path_weight\<close> is
  modelled by its contract: the result is the least weight of a route from \<open>u\<close> to
  \<open>v\<close>, where the weight of a route is accumulated from the source as \<open>path_weight\<close>
  does (\<open>cost = 0\<close>, then \<open>cost += w\<close> for each edge in turn). \<open>walk_weights es n u v acc\<close>
  lists the weights of all routes from \<open>u\<close> to \<open>v\<close> of at most \<open>n\<close> edges, started with
  cost \<open>acc\<close>; with non-negative travel times a route that repeats a node is never
  lighter than the route without the repetition, and a route without repetition has at
  most as many edges as the graph. The contract (and this model) is for non-negative
  travel times: with a negative travel time networkx's Dijkstra need not return the
  least weight, and the model says nothing about the code there. There is no result (\<open>None\<close>: the exception caught in the source) when
  \<open>u\<close> or \<open>v\<close> is not a node of the graph or no route exists.
\<close>

fun walk_weights ::
  "(node \<times> node \<times> real) list \<Rightarrow> nat \<Rightarrow> node \<Rightarrow> node \<Rightarrow> real \<Rightarrow> real list" where
  "walk_weights es 0 u v acc = (if u = v then [acc] else [])"
| "walk_weights es (Suc n) u v acc =
     (if u = v then [acc] else []) @
     concat (map (\<lambda>e. if fst e = u then walk_weights es n (fst (snd e)) v (fadd acc (snd (snd e)))
                        else []) es)"

definition shortest_path_weight :: "graph \<Rightarrow> node \<Rightarrow> node \<Rightarrow> real option" where
  "shortest_path_weight G u v =
     (if u \<in> set (g_nodes G) \<and> v \<in> set (g_nodes G) then
        (case walk_weights (g_edges G) (length (g_edges G)) u v 0 of
           [] \<Rightarrow> None
         | w # ws \<Rightarrow> Some (Min (set (w # ws))))
      else None)"

text \<open>
  The loop of \<open>compute_od_time\<close> over \<open>temp_edges\<close>, on the graph at address \<open>G\<close>:
  \<^verbatim>\<open>
  for u, v, length_km, speed in temp_edges:
      t = (length_km / speed) * 3600.0
      G.add_edge(u, v, travel_time=t)
      G.add_edge(v, u, travel_time=t)
  \<close>
\<close>

fun add_temp_edges ::
  "store \<Rightarrow> nat \<Rightarrow> (node \<times> node \<times> real \<times> real) list \<Rightarrow> (error + unit) \<times> store" where
  "add_temp_edges s G [] = (Inr (), s)"
| "add_temp_edges s G ((u, v, length_km, speed) # es) =
     (case fdiv length_km speed of
        Inl e \<Rightarrow> (Inl e, s)
      | Inr q \<Rightarrow>
          (let t = fmul q 3600
           in add_temp_edges (s[G := add_edge v u t (add_edge u v t (s ! G))]) G es))"

text \<open>
  \<^verbatim>\<open>
  def compute_od_time(origin, dest, temp_edges=None):
      if road_graph is None: return None
      G = road_graph.copy()
      if temp_edges: (the loop above)
      u = nearest_node(origin.lat, origin.lng)
      v = nearest_node(dest.lat, dest.lng)
      if u is None or v is None: return None
      try:
          route = nx.shortest_path(G, u, v, weight="travel_time")
          return nx.path_weight(G, route, weight="travel_time")
      except Exception as e: return None
  \<close>
  The result is the returned value (or the exception raised) and the store afterwards.
  An absent \<open>temp_edges\<close> is the empty list.
\<close>

definition compute_od_time ::
  "env \<Rightarrow> store \<Rightarrow> LatLng \<Rightarrow> LatLng \<Rightarrow> (node \<times> node \<times> real \<times> real) list
     \<Rightarrow> (error + real option) \<times> store" where
  "compute_od_time E s orig dest temp_edges =
     (case road_graph E of
        None \<Rightarrow> (Inr None, s)
      | Some a \<Rightarrow>
          (case graph_copy s a of (G, s1) \<Rightarrow>
             (case add_temp_edges s1 G temp_edges of
                (Inl e, s2) \<Rightarrow> (Inl e, s2)
              | (Inr _, s2) \<Rightarrow>
                  (case (nearest_node E s2 (lat orig) (lng orig),
                         nearest_node E s2 (lat dest) (lng dest)) of
                     (Some u, Some v) \<Rightarrow> (Inr (shortest_path_weight (s2 ! G) u v), s2)
                   | _ \<Rightarrow> (Inr None, s2)))))"

text \<open>
  For the proofs: \<open>overlay_time\<close> is the travel time that the loop computes for an
  overlay edge, \<open>overlay_graph G es\<close> the graph that the loop makes of \<open>G\<close> when no
  speed is zero, and \<open>overlay_pairs es\<close> the edges it adds.
\<close>

definition overlay_time :: "real \<Rightarrow> real \<Rightarrow> real" where
  "overlay_time length_km speed = fmul (fl (length_km / speed)) 3600"

fun overlay_graph :: "graph \<Rightarrow> (node \<times> node \<times> real \<times> real) list \<Rightarrow> graph" where
  "overlay_graph G [] = G"
| "overlay_graph G ((u, v, length_km, speed) # es) =
     overlay_graph (add_edge v u (overlay_time length_km speed)
                      (add_edge u v (overlay_time length_km speed) G)) es"

definition overlay_pairs :: "(node \<times> node \<times> real \<times> real) list \<Rightarrow> (node \<times> node \<times> real) list" where
  "overlay_pairs es =
     concat (map (\<lambda>(u, v, length_km, speed).
                    [(u, v, overlay_time length_km speed), (v, u, overlay_time length_km speed)]) es)"

section \<open>Alerts\<close>

text \<open>
  \<open>pts.cx[minx:maxx, miny:maxy]\<close> keeps the rows whose geometry intersects the box with
  these corners: for a point, that it lies in the closed rectangle.
\<close>

definition cx :: "hotspot list \<Rightarrow> real \<Rightarrow> real \<Rightarrow> real \<Rightarrow> real \<Rightarrow> hotspot list" where
  "cx pts minx maxx miny maxy =
     filter (\<lambda>row. case geometry row of
                      None \<Rightarrow> False
                    | Some (x, y) \<Rightarrow> min minx maxx \<le> x \<and> x \<le> max minx maxx \<and>
                                    min miny maxy \<le> y \<and> y \<le> max miny maxy) pts"

text \<open>The lines \<open>pts = flood_points\<close> and \<open>if bbox and len(bbox) == 4: ...\<close>.\<close>

definition restrict_bbox :: "hotspot list \<Rightarrow> real list option \<Rightarrow> hotspot list" where
  "restrict_bbox fp bbox =
     (case bbox of
        Some [minx, miny, maxx, maxy] \<Rightarrow> cx fp minx maxx miny maxy
      | _ \<Rightarrow> fp)"

text \<open>
  The two dictionaries of \<open>generate_alert_from_rainfall\<close>. A character outside ASCII
  (the dash of three of the messages) is written as its UTF-8 bytes.
\<close>

definition em_dash :: string where
  "em_dash = [CHR 0xE2, CHR 0x80, CHR 0x94]"

definition messages :: "(string \<times> string) list" where
  "messages =
     [(''low'', ''Low flood risk.''),
      (''moderate'', ''Moderate risk '' @ em_dash @ '' localized hotspots possible.''),
      (''high'', ''High risk '' @ em_dash @ '' many hotspots likely to be affected.''),
      (''critical'', ''Critical risk '' @ em_dash @ '' widespread inundation possible.'')]"

definition actions :: "(string \<times> string list) list" where
  "actions =
     [(''low'', [''Monitor rainfall trends'']),
      (''moderate'', [''Prepare pumps and alert local teams'']),
      (''high'', [''Issue city-wide advisories'', ''Mobilize maintenance teams'']),
      (''critical'', [''Activate emergency operations'', ''Prepare evacuations''])]"

text \<open>A dictionary lookup \<open>d[k]\<close> raises \<open>KeyError\<close> on a missing key.\<close>

definition lookup :: "('k \<times> 'v) list \<Rightarrow> 'k \<Rightarrow> error + 'v" where
  "lookup d k = (case map_of d k of None \<Rightarrow> Inl KeyError | Some v \<Rightarrow> Inr v)"

text \<open>The body of the loop over the affected rows.\<close>

definition out_point :: "hotspot \<Rightarrow> AlertPoint" where
  "out_point row =
     \<lparr>ap_lat = map_option snd (geometry row),
      ap_lng = map_option fst (geometry row),
      ap_properties = row_properties_safe row\<rparr>"

definition generate_alert_from_rainfall :: "env \<Rightarrow> real \<Rightarrow> real list option \<Rightarrow> error + alert" where
  "generate_alert_from_rainfall E rain bbox =
     (case flood_points E of
        None \<Rightarrow> Inl RuntimeError
      | Some fp \<Rightarrow>
          (let pts = restrict_bbox fp bbox;
               total = length pts
           in if total = 0 then
                Inr \<lparr>severity = ''low'', affected_count = 0, affected_points = [],
                     message = ''No known hotspots for selected area.'',
                     recommended_actions = [''Monitor rainfall''],
                     rainfall_mm = rain\<rparr>
              else
                (let frac = (if rain < 10 then fl (5 / 100)
                             else if rain < 25 then fl (15 / 100)
                             else if rain < 50 then fl (40 / 100)
                             else if rain < 100 then fl (70 / 100)
                             else 1);
                     count = max 1 (py_int (fmul (fl (of_nat total)) frac));
                     affected = take (nat count) pts;
                     out_points = map out_point affected;
                     sev = classify_severity rain
                 in bind (lookup messages sev) (\<lambda>msg.
                    bind (lookup actions sev) (\<lambda>acts.
                      Inr \<lparr>severity = sev, affected_count = count,
                           affected_points = out_points, message = msg,
                           recommended_actions = acts, rainfall_mm = rain\<rparr>)))))"

section \<open>Scenario simulation\<close>

text \<open>
  Line 326, \<open>length_km = req.approxLength or compute_length_from_points(req.roadPoints)\<close>:
  \<open>None\<close> and \<open>0.0\<close> are the falsy values of an optional float.
\<close>

definition length_km_of :: "env \<Rightarrow> ScenarioRequest \<Rightarrow> error + real" where
  "length_km_of E req =
     (case approxLength req of
        None \<Rightarrow> compute_length_from_points E (roadPoints req)
      | Some l \<Rightarrow> if l \<noteq> 0 then Inr l else compute_length_from_points E (roadPoints req))"

text \<open>Line 327, \<open>lanes = req.lanes or 1\<close>.\<close>

definition lanes_of :: "ScenarioRequest \<Rightarrow> int" where
  "lanes_of req = (case lanes req of None \<Rightarrow> 1 | Some n \<Rightarrow> if n \<noteq> 0 then n else 1)"

text \<open>
  The truth value of the global \<open>road_graph\<close>: a networkx graph is falsy when it has no
  nodes.
\<close>

definition graph_truthy :: "env \<Rightarrow> store \<Rightarrow> bool" where
  "graph_truthy E s = (case road_graph E of None \<Rightarrow> False | Some a \<Rightarrow> g_nodes (s ! a) \<noteq> [])"

text \<open>
  Lines 334 to 339, the scenario time: it starts as the baseline time and is computed
  with the overlay edge when the path is not empty, the graph is truthy and both path
  ends resolve to a node.
\<close>

definition scenario_od ::
  "env \<Rightarrow> store \<Rightarrow> ScenarioRequest \<Rightarrow> LatLng \<Rightarrow> LatLng \<Rightarrow> real \<Rightarrow> real option
     \<Rightarrow> (error + real option) \<times> store" where
  "scenario_od E s req orig dest length_km base_sec =
     (if roadPoints req \<noteq> [] \<and> graph_truthy E s then
        (case (nearest_node E s (lat (hd (roadPoints req))) (lng (hd (roadPoints req))),
               nearest_node E s (lat (last (roadPoints req))) (lng (last (roadPoints req)))) of
           (Some u, Some v) \<Rightarrow> compute_od_time E s orig dest [(u, v, length_km, 60)]
         | _ \<Rightarrow> (Inr base_sec, s))
      else (Inr base_sec, s))"

text \<open>Lines 340 to 347.\<close>

definition od_minutes ::
  "ScenarioRequest \<Rightarrow> real \<Rightarrow> int \<Rightarrow> real option \<Rightarrow> real option \<Rightarrow> TrafficResult" where
  "od_minutes req length_km lns base_sec scen_sec =
     (case (base_sec, scen_sec) of
        (Some b, Some sc) \<Rightarrow>
          (let baseline_minutes = fl (b / 60);
               scenario_minutes = fl (sc / 60)
           in \<lparr>minutesChange = fsub scenario_minutes baseline_minutes,
               baselineMinutes = Some baseline_minutes,
               scenarioMinutes = Some scenario_minutes\<rparr>)
      | _ \<Rightarrow>
          (let minutes_change = - min 20 (fmul (fmul length_km (fl (of_int lns))) (fl (6 / 10)))
           in \<lparr>minutesChange =
                  (if interventionType req = Restriction then fl (\<bar>minutes_change\<bar> / 2)
                   else minutes_change),
               baselineMinutes = None,
               scenarioMinutes = None\<rparr>))"

text \<open>Lines 328 to 347, the traffic part of \<open>simulate\<close>.\<close>

definition traffic_branch ::
  "env \<Rightarrow> store \<Rightarrow> ScenarioRequest \<Rightarrow> real \<Rightarrow> int \<Rightarrow> error + TrafficResult" where
  "traffic_branch E s req length_km lns =
     (case (origin req, destination req) of
        (Some orig, Some dest) \<Rightarrow>
          (case compute_od_time E s orig dest [] of (r1, s1) \<Rightarrow>
             bind r1 (\<lambda>base_sec.
               case scenario_od E s1 req orig dest length_km base_sec of (r2, s2) \<Rightarrow>
                 bind r2 (\<lambda>scen_sec. Inr (od_minutes req length_km lns base_sec scen_sec))))
      | _ \<Rightarrow> Inr \<lparr>minutesChange = 0, baselineMinutes = None, scenarioMinutes = None\<rparr>)"

text \<open>
  \<open>LineString(coords)\<close> raises on a single coordinate (\<open>GEOSException\<close> in Shapely 2,
  \<open>ValueError\<close> in Shapely 1): a line string has no or at least two coordinates.
\<close>

definition line_string :: "(real \<times> real) list \<Rightarrow> error + (real \<times> real) list" where
  "line_string coords = (if length coords = 1 then Inl LineStringError else Inr coords)"

text \<open>Lines 359 to 366.\<close>

definition hotspot_delta :: "intervention \<Rightarrow> int \<Rightarrow> int" where
  "hotspot_delta ty affected =
     (if ty = Road then affected
      else if ty = Drain then - 2 * affected
      else if ty = Green then - affected
      else - 2 * affected)"

text \<open>Lines 369 to 377; \<open>max(0.01, x)\<close> is \<open>x\<close> when \<open>x > 0.01\<close> and \<open>0.01\<close> otherwise.\<close>

definition heuristic_delta :: "ScenarioRequest \<Rightarrow> real \<Rightarrow> int" where
  "heuristic_delta req length_km =
     (let rf = max (fl (1 / 100)) (fl (fl (of_int (rainfall req)) / 100))
      in if interventionType req = Road then py_round (fmul (fmul length_km rf) 10)
         else if interventionType req = Drain then - py_round (fmul (fmul length_km rf) 15)
         else if interventionType req = Green then - py_round (fmul (fmul length_km rf) 8)
         else - py_round (fmul (fmul length_km rf) 12))"

text \<open>Lines 353 to 377, the risk-cell delta.\<close>

definition flood_delta :: "env \<Rightarrow> ScenarioRequest \<Rightarrow> real \<Rightarrow> error + int" where
  "flood_delta E req length_km =
     (case flood_points E of
        None \<Rightarrow> Inr (heuristic_delta req length_km)
      | Some fp \<Rightarrow>
          if roadPoints req \<noteq> [] then
            bind (line_string (map (\<lambda>p. (lng p, lat p)) (roadPoints req))) (\<lambda>line.
              let affected = filter (\<lambda>row. case geometry row of
                                              None \<Rightarrow> False
                                            | Some pt \<Rightarrow> within_buffer E line 100 pt) fp;
                  affected_count = int (length affected)
              in Inr (hotspot_delta (interventionType req) affected_count))
          else Inr (heuristic_delta req length_km))"

text \<open>
  The format \<open>{length_km:.2f}\<close>: the exact value rounded to two decimals, a tie going
  to the even digit.
\<close>

definition digit :: "nat \<Rightarrow> char" where
  "digit d = ''0123456789'' ! d"

fun dec_str :: "nat \<Rightarrow> string" where
  "dec_str n = (if n < 10 then [digit n] else dec_str (n div 10) @ [digit (n mod 10)])"

declare dec_str.simps [simp del]

definition format_2f :: "real \<Rightarrow> string" where
  "format_2f x =
     (let n = nat \<bar>py_round (x * 100)\<bar>
      in (if x < 0 then ''-'' else []) @ dec_str (n div 100) @ ''.'' @
         [digit (n mod 100 div 10), digit (n mod 10)])"

text \<open>
  \<open>simulate\<close>, the handler of \<open>POST /api/disaster/simulate\<close>: its result is the response,
  or the exception that leaves the handler.
\<close>

definition simulate :: "env \<Rightarrow> store \<Rightarrow> ScenarioRequest \<Rightarrow> error + ScenarioResponse" where
  "simulate E s req =
     bind (length_km_of E req) (\<lambda>length_km.
       let lns = lanes_of req
       in bind (traffic_branch E s req length_km lns) (\<lambda>tr.
            let baseline_cells = 1000;
                baseline_pop = 500000
            in bind (flood_delta E req length_km) (\<lambda>delta_cells.
                 let scenario_cells = max 0 (baseline_cells + delta_cells);
                     scenario_pop =
                       py_int (fmul (fl (of_int baseline_pop))
                                 (fl (of_int scenario_cells / of_int baseline_cells)))
                 in Inr \<lparr>traffic = tr,
                         flood = \<lparr>baselineHighRiskCells = baseline_cells,
                                  scenarioHighRiskCells = scenario_cells,
                                  baselinePop = baseline_pop,
                                  scenarioPop = scenario_pop\<rparr>,
                         notes = ''Intervention length '' @ format_2f length_km @ '' km.''\<rparr>)))"

section \<open>Example data\<close>

text \<open>
  A server without dataset and without road graph; the library functions of this
  example are never called. \<open>env_hotspots n\<close> is the same server with a dataset of
  \<open>n\<close> hotspots.
\<close>

definition env_none :: env where
  "env_none =
     \<lparr>flood_points = None, road_graph = None,
      nearest_nodes = (\<lambda>g x y. None), within_buffer = (\<lambda>line r p. False),
      m_radians = (\<lambda>x. 0), m_sin = (\<lambda>x. 0), m_cos = (\<lambda>x. 0), m_sqrt = (\<lambda>x. 0),
      m_atan2 = (\<lambda>x y. 0), m_pow = (\<lambda>x y. 0)\<rparr>"

definition demo_hotspot :: "nat \<Rightarrow> hotspot" where
  "demo_hotspot i =
     \<lparr>geometry = Some (78 + real i / 100, 17), columns = [(''id'', VInt (int i))]\<rparr>"

definition env_hotspots :: "nat \<Rightarrow> env" where
  "env_hotspots n = env_none\<lparr>flood_points := Some (map demo_hotspot [0..<n])\<rparr>"

text \<open>Requests without origin and destination and without a path.\<close>

definition req_road_1km :: ScenarioRequest where
  "req_road_1km =
     \<lparr>scenarioName = None, interventionType = Road, rainfall = 10, approxLength = Some 1,
      lanes = None, roadPoints = [], origin = None, destination = None\<rparr>"

definition req_drain_2km :: ScenarioRequest where
  "req_drain_2km =
     \<lparr>scenarioName = None, interventionType = Drain, rainfall = 40, approxLength = Some 2,
      lanes = None, roadPoints = [], origin = None, destination = None\<rparr>"

text \<open>A request whose path is a single point.\<close>

definition req_single_point :: ScenarioRequest where
  "req_single_point =
     \<lparr>scenarioName = None, interventionType = Road, rainfall = 10, approxLength = None,
      lanes = None, roadPoints = [\<lparr>lat = 17, lng = 78\<rparr>], origin = None,
      destination = None\<rparr>"

text \<open>
  A request with an explicit length of 0 and a path of two points, and a server whose
  stand-in for \<open>atan2\<close> is constant, so that every distance is \<open>6371 * 2 / 16384\<close> km.
\<close>

definition env_far_atan :: env where
  "env_far_atan = env_none\<lparr>m_atan2 := (\<lambda>y x. 1 / 16384)\<rparr>"

definition req_zero_length :: ScenarioRequest where
  "req_zero_length =
     \<lparr>scenarioName = None, interventionType = Road, rainfall = 100, approxLength = Some 0,
      lanes = None, roadPoints = [\<lparr>lat = 17, lng = 78\<rparr>, \<lparr>lat = 18, lng = 78\<rparr>],
      origin = Some \<lparr>lat = 17, lng = 78\<rparr>, destination = Some \<lparr>lat = 18, lng = 78\<rparr>\<rparr>"

text \<open>
  A road graph of two nodes with one edge of 1000 seconds, at address 0 of the store,
  and a resolver that fails west of 78 degrees of longitude, gives node 1 below 79
  degrees and node 2 from there on.
\<close>

definition two_node_graph :: graph where
  "two_node_graph = \<lparr>g_nodes = [1, 2], g_edges = [(1, 2, 1000)]\<rparr>"

definition env_two_node :: env where
  "env_two_node =
     env_none\<lparr>road_graph := Some 0,
               nearest_nodes := (\<lambda>g x y. if x < 78 then None else if x < 79 then Some 1 else Some 2)\<rparr>"

definition pt_a :: LatLng where "pt_a = \<lparr>lat = 17, lng = 78\<rparr>"

definition pt_b :: LatLng where "pt_b = \<lparr>lat = 17, lng = 79\<rparr>"

definition pt_c :: LatLng where "pt_c = \<lparr>lat = 17, lng = 77\<rparr>"

text \<open>
  A restriction of 2 km with two lanes between \<open>pt_a\<close> and \<open>pt_b\<close>, and a road of 2 km
  whose path is the single point \<open>pt_c\<close>.
\<close>

definition req_restriction :: ScenarioRequest where
  "req_restriction =
     \<lparr>scenarioName = None, interventionType = Restriction, rainfall = 40, approxLength = Some 2,
      lanes = Some 2, roadPoints = [], origin = Some pt_a, destination = Some pt_b\<rparr>"

definition req_unresolved :: ScenarioRequest where
  "req_unresolved =
     \<lparr>scenarioName = None, interventionType = Road, rainfall = 10, approxLength = Some 2,
      lanes = None, roadPoints = [pt_c], origin = Some pt_a, destination = Some pt_b\<rparr>"

section \<open>Evaluation of the rounding function\<close>

lemmas fl_eval = fl_def expo_def pow2_def py_round_def bit_length.simps Let_def

section \<open>Properties\<close>

text \<open>
  C4: \<open>classify_severity\<close> is the threshold function: below 10 it gives low, from 10 and
  below 25 moderate, from 25 and below 50 high, from 50 on critical. The boundary
  values 9.99, 24.99 and 49.99 are the floats nearest to these decimals.
\<close>

theorem classify_severity_thresholds:
  "(r < 10 \<longrightarrow> classify_severity r = ''low'') \<and>
   (10 \<le> r \<and> r < 25 \<longrightarrow> classify_severity r = ''moderate'') \<and>
   (25 \<le> r \<and> r < 50 \<longrightarrow> classify_severity r = ''high'') \<and>
   (50 \<le> r \<longrightarrow> classify_severity r = ''critical'')"
  by (simp add: classify_severity_def)

theorem classify_severity_thresholds_witness:
  "fl (999 / 100) < 10 \<and> classify_severity (fl (999 / 100)) = ''low'' \<and>
   classify_severity 10 = ''moderate'' \<and>
   10 \<le> fl (2499 / 100) \<and> fl (2499 / 100) < 25 \<and>
   classify_severity (fl (2499 / 100)) = ''moderate'' \<and>
   classify_severity 25 = ''high'' \<and>
   25 \<le> fl (4999 / 100) \<and> fl (4999 / 100) < 50 \<and>
   classify_severity (fl (4999 / 100)) = ''high'' \<and>
   classify_severity 50 = ''critical''"
proof -
  have a: "fl (999 / 100) < 10"
    by (simp add: fl_eval)
  have b: "10 \<le> fl (2499 / 100) \<and> fl (2499 / 100) < 25"
    by (simp add: fl_eval)
  have c: "25 \<le> fl (4999 / 100) \<and> fl (4999 / 100) < 50"
    by (simp add: fl_eval)
  show ?thesis
    using a b c
      classify_severity_thresholds [of "fl (999 / 100)"]
      classify_severity_thresholds [of 10]
      classify_severity_thresholds [of "fl (2499 / 100)"]
      classify_severity_thresholds [of 25]
      classify_severity_thresholds [of "fl (4999 / 100)"]
      classify_severity_thresholds [of 50]
    by simp
qed

section \<open>Alerts: lemmas\<close>

lemma py_round_nonneg: "0 \<le> x \<Longrightarrow> 0 \<le> py_round x"
  by (auto simp: py_round_def Let_def)

lemma pow2_pos: "0 < pow2 e"
  by (simp add: pow2_def)

lemma fl_nonneg: "0 \<le> x \<Longrightarrow> 0 \<le> fl x"
  by (simp add: fl_def Let_def py_round_nonneg pow2_pos less_imp_le)

lemma fmul_nonneg: "0 \<le> x \<Longrightarrow> 0 \<le> y \<Longrightarrow> 0 \<le> fmul x y"
  by (simp add: fmul_def fl_nonneg)

lemma py_int_nonneg: "0 \<le> x \<Longrightarrow> py_int x = \<lfloor>x\<rfloor>"
  by (simp add: py_int_def)

lemma frac_nonneg:
  "0 \<le> (if rain < 10 then fl (5 / 100)
          else if rain < 25 then fl (15 / 100)
          else if rain < 50 then fl (40 / 100)
          else if rain < 100 then fl (70 / 100)
          else (1::real))"
  by (simp add: fl_nonneg)

lemma lookup_messages:
  "lookup messages (classify_severity r) = Inr (the (map_of messages (classify_severity r)))"
  by (simp add: lookup_def messages_def classify_severity_def)

lemma lookup_actions:
  "lookup actions (classify_severity r) = Inr (the (map_of actions (classify_severity r)))"
  by (simp add: lookup_def actions_def classify_severity_def)

lemma the_messages:
  "map_of messages (classify_severity r) = Some (the (map_of messages (classify_severity r)))"
  by (simp add: messages_def classify_severity_def)

lemma the_actions:
  "map_of actions (classify_severity r) = Some (the (map_of actions (classify_severity r)))"
  by (simp add: actions_def classify_severity_def)

lemma actions_table:
  "the (map_of actions (classify_severity r)) =
     (if classify_severity r = ''low'' then [''Monitor rainfall trends'']
      else if classify_severity r = ''moderate'' then [''Prepare pumps and alert local teams'']
      else if classify_severity r = ''high''
        then [''Issue city-wide advisories'', ''Mobilize maintenance teams'']
      else [''Activate emergency operations'', ''Prepare evacuations''])"
  by (simp add: actions_def classify_severity_def)

lemma generate_alert_nonempty:
  assumes "flood_points E = Some fp" and "restrict_bbox fp bbox \<noteq> []"
  shows "generate_alert_from_rainfall E rain bbox =
     Inr \<lparr>severity = classify_severity rain,
          affected_count =
            max 1 (py_int (fmul (fl (real (length (restrict_bbox fp bbox))))
              (if rain < 10 then fl (5 / 100)
               else if rain < 25 then fl (15 / 100)
               else if rain < 50 then fl (40 / 100)
               else if rain < 100 then fl (70 / 100)
               else 1))),
          affected_points =
            map out_point
              (take (nat (max 1 (py_int (fmul (fl (real (length (restrict_bbox fp bbox))))
                 (if rain < 10 then fl (5 / 100)
                  else if rain < 25 then fl (15 / 100)
                  else if rain < 50 then fl (40 / 100)
                  else if rain < 100 then fl (70 / 100)
                  else 1)))))
               (restrict_bbox fp bbox)),
          message = the (map_of messages (classify_severity rain)),
          recommended_actions = the (map_of actions (classify_severity rain)),
          rainfall_mm = rain\<rparr>"
  using assms
  by (simp add: generate_alert_from_rainfall_def Let_def bind_def lookup_messages lookup_actions)

text \<open>
  What the source computes for a non-empty (possibly bbox-restricted) collection: the
  activation fraction follows the breakpoints 10, 25, 50 and 100, the affected count is
  the larger of 1 and the floor of the float product of the converted \<open>total\<close> and the
  float literal, and the affected points are the first that many hotspots in collection
  order.
\<close>

lemma generate_alert_prefix:
  assumes "flood_points E = Some fp" and "restrict_bbox fp bbox \<noteq> []"
  shows "\<exists>a. generate_alert_from_rainfall E rain bbox = Inr a \<and>
     affected_count a =
       max 1 \<lfloor>fmul (fl (real (length (restrict_bbox fp bbox))))
                (if rain < 10 then fl (5 / 100)
                 else if rain < 25 then fl (15 / 100)
                 else if rain < 50 then fl (40 / 100)
                 else if rain < 100 then fl (70 / 100)
                 else 1)\<rfloor> \<and>
     affected_points a = map out_point (take (nat (affected_count a)) (restrict_bbox fp bbox))"
proof -
  let ?pts = "restrict_bbox fp bbox"
  let ?frac = "if rain < 10 then fl (5 / 100)
                 else if rain < 25 then fl (15 / 100)
                 else if rain < 50 then fl (40 / 100)
                 else if rain < 100 then fl (70 / 100)
                 else (1::real)"
  have "0 \<le> fmul (fl (real (length ?pts))) ?frac"
    by (intro fmul_nonneg fl_nonneg frac_nonneg) simp
  then have "py_int (fmul (fl (real (length ?pts))) ?frac) =
      \<lfloor>fmul (fl (real (length ?pts))) ?frac\<rfloor>"
    by (rule py_int_nonneg)
  then show ?thesis
    unfolding generate_alert_nonempty [OF assms] by simp
qed

lemma take_demo: "n \<le> m \<Longrightarrow> take n (map demo_hotspot [0..<m]) = map demo_hotspot [0..<n]"
  by (simp add: take_map)

lemma generate_alert_prefix_example:
  "flood_points (env_hotspots 20) = Some (map demo_hotspot [0..<20]) \<and>
   restrict_bbox (map demo_hotspot [0..<20]) None \<noteq> [] \<and>
   map_sum id affected_count (generate_alert_from_rainfall (env_hotspots 20) 30 None) = Inr 8 \<and>
   map_sum id affected_points (generate_alert_from_rainfall (env_hotspots 20) 30 None) =
     Inr (map out_point (map demo_hotspot [0..<8]))"
proof -
  have h: "flood_points (env_hotspots 20) = Some (map demo_hotspot [0..<20])"
    by (simp add: env_hotspots_def)
  have ne: "restrict_bbox (map demo_hotspot [0..<20]) None \<noteq> []"
    by (simp add: restrict_bbox_def)
  have len: "length (restrict_bbox (map demo_hotspot [0..<20]) None) = 20"
    by (simp add: restrict_bbox_def)
  have cnt: "max 1 \<lfloor>fmul (fl (real (20::nat))) (fl (40 / 100))\<rfloor> = 8"
    by (simp add: fmul_def fl_eval)
  from generate_alert_prefix [OF h ne, of 30]
  obtain a where a: "generate_alert_from_rainfall (env_hotspots 20) 30 None = Inr a"
    and c: "affected_count a = 8"
    and p: "affected_points a =
      map out_point (take (nat (affected_count a)) (restrict_bbox (map demo_hotspot [0..<20]) None))"
    unfolding len using cnt by auto
  have "take 8 (restrict_bbox (map demo_hotspot [0..<20]) None) = map demo_hotspot [0..<8]"
    by (simp add: restrict_bbox_def take_demo)
  with a c p h ne show ?thesis by simp
qed

text \<open>
  C5: the affected count is not always \<open>max(1, floor(total * fraction))\<close>. The source
  takes \<open>int\<close> of a float product, which is not the product of the decimals: for 90
  hotspots and a rainfall from 50 and below 100 the fraction is 0.70, \<open>90 * 0.7\<close> is the
  float \<open>62.99999999999999\<close> and the count is 62, while the floor of the product is 63.
  The breakpoints and the selection of the first hotspots in collection order are as
  claimed (\<open>generate_alert_prefix\<close>).
\<close>

theorem alert_of_90_hotspots:
  "map_sum id affected_count (generate_alert_from_rainfall (env_hotspots 90) 60 None) = Inr 62 \<and>
   max 1 \<lfloor>(90 :: real) * (70 / 100)\<rfloor> = 63"
proof -
  have h: "flood_points (env_hotspots 90) = Some (map demo_hotspot [0..<90])"
    by (simp add: env_hotspots_def)
  have ne: "restrict_bbox (map demo_hotspot [0..<90]) None \<noteq> []"
    by (simp add: restrict_bbox_def)
  have len: "length (restrict_bbox (map demo_hotspot [0..<90]) None) = 90"
    by (simp add: restrict_bbox_def)
  have cnt: "max 1 (py_int (fmul (fl (real (90::nat))) (fl (70 / 100)))) = 62"
    by (simp add: fmul_def py_int_def fl_eval)
  show ?thesis
    unfolding generate_alert_nonempty [OF h ne] len using cnt by simp
qed

text \<open>
  C6, as amended: an alert for a non-empty collection carries the message and the
  recommended actions that the two tables give for its severity; the alert for an
  empty collection has severity low, count 0, the message "No known hotspots for
  selected area." and the actions \<open>["Monitor rainfall"]\<close>, which is not the entry of
  the table for low.
\<close>

theorem generate_alert_tables:
  assumes "flood_points E = Some fp"
  shows "\<exists>a. generate_alert_from_rainfall E rain bbox = Inr a \<and>
     (if restrict_bbox fp bbox = [] then
        severity a = ''low'' \<and> affected_count a = 0 \<and>
        message a = ''No known hotspots for selected area.'' \<and>
        recommended_actions a = [''Monitor rainfall'']
      else
        severity a = classify_severity rain \<and>
        map_of messages (severity a) = Some (message a) \<and>
        map_of actions (severity a) = Some (recommended_actions a) \<and>
        recommended_actions a =
          (if severity a = ''low'' then [''Monitor rainfall trends'']
           else if severity a = ''moderate'' then [''Prepare pumps and alert local teams'']
           else if severity a = ''high''
             then [''Issue city-wide advisories'', ''Mobilize maintenance teams'']
           else [''Activate emergency operations'', ''Prepare evacuations'']))"
proof (cases "restrict_bbox fp bbox = []")
  case True
  with assms show ?thesis
    by (simp add: generate_alert_from_rainfall_def)
next
  case False
  show ?thesis
    unfolding generate_alert_nonempty [OF assms False]
    using False the_messages [of rain] the_actions [of rain] actions_table [of rain]
    by simp
qed

theorem generate_alert_tables_witness:
  "flood_points (env_hotspots 20) = Some (map demo_hotspot [0..<20]) \<and>
   map_sum id recommended_actions (generate_alert_from_rainfall (env_hotspots 20) 30 None) =
     Inr [''Issue city-wide advisories'', ''Mobilize maintenance teams'']"
proof -
  have h: "flood_points (env_hotspots 20) = Some (map demo_hotspot [0..<20])"
    by (simp add: env_hotspots_def)
  have ne: "restrict_bbox (map demo_hotspot [0..<20]) None \<noteq> []"
    by (simp add: restrict_bbox_def)
  from generate_alert_tables [OF h, of 30 None] ne
  obtain a where "generate_alert_from_rainfall (env_hotspots 20) 30 None = Inr a"
    and "severity a = classify_severity 30"
    and "recommended_actions a =
          (if severity a = ''low'' then [''Monitor rainfall trends'']
           else if severity a = ''moderate'' then [''Prepare pumps and alert local teams'']
           else if severity a = ''high''
             then [''Issue city-wide advisories'', ''Mobilize maintenance teams'']
           else [''Activate emergency operations'', ''Prepare evacuations''])"
    by auto
  then show ?thesis
    using h by (simp add: classify_severity_def)
qed

text \<open>
  The alert for an empty collection has severity low and does not carry the entries
  of the tables for low.
\<close>

theorem generate_alert_empty_counterexample:
  "generate_alert_from_rainfall (env_hotspots 0) 5 None =
     Inr \<lparr>severity = ''low'', affected_count = 0, affected_points = [],
          message = ''No known hotspots for selected area.'',
          recommended_actions = [''Monitor rainfall''], rainfall_mm = 5\<rparr> \<and>
   lookup actions ''low'' = Inr [''Monitor rainfall trends''] \<and>
   lookup messages ''low'' = Inr ''Low flood risk.''"
  by (simp add: generate_alert_from_rainfall_def env_hotspots_def env_none_def restrict_bbox_def
      lookup_def actions_def messages_def)

section \<open>Scenario simulation: lemmas\<close>

lemma simulate_steps:
  assumes "length_km_of E req = Inr l"
    and "traffic_branch E s req l (lanes_of req) = Inr tr"
    and "flood_delta E req l = Inr d"
  shows "simulate E s req =
     Inr \<lparr>traffic = tr,
          flood = \<lparr>baselineHighRiskCells = 1000,
                   scenarioHighRiskCells = max 0 (1000 + d),
                   baselinePop = 500000,
                   scenarioPop = py_int (fmul (fl 500000) (fl (of_int (max 0 (1000 + d)) / 1000)))\<rparr>,
          notes = ''Intervention length '' @ format_2f l @ '' km.''\<rparr>"
  using assms by (simp add: simulate_def bind_def Let_def)

lemma simulate_flood_raises:
  assumes "length_km_of E req = Inr l"
    and "traffic_branch E s req l (lanes_of req) = Inr tr"
    and "flood_delta E req l = Inl e"
  shows "simulate E s req = Inl e"
  using assms by (simp add: simulate_def bind_def Let_def)

lemma traffic_branch_no_od:
  "origin req = None \<or> destination req = None \<Longrightarrow>
   traffic_branch E s req l lns =
     Inr \<lparr>minutesChange = 0, baselineMinutes = None, scenarioMinutes = None\<rparr>"
  by (auto simp: traffic_branch_def split: option.splits)

lemma rf_10: "max (fl (1 / 100)) (fl (fl 10 / 100)) = 3602879701896397 / 36028797018963968"
  by (simp add: fl_eval)

lemma rf_40: "max (fl (1 / 100)) (fl (fl 40 / 100)) = 3602879701896397 / 9007199254740992"
  by (simp add: fl_eval)

lemma heuristic_delta_road_1km: "heuristic_delta req_road_1km 1 = 1"
proof -
  have "fmul (fmul 1 (3602879701896397 / 36028797018963968)) 10 = 1"
    by (simp add: fmul_def fl_eval)
  then show ?thesis
    by (simp add: heuristic_delta_def req_road_1km_def rf_10 py_round_def)
qed

lemma heuristic_delta_drain_2km: "heuristic_delta req_drain_2km 2 = - 12"
proof -
  have "fmul (fmul 2 (3602879701896397 / 9007199254740992)) 15 = 12"
    by (simp add: fmul_def fl_eval)
  then show ?thesis
    by (simp add: heuristic_delta_def req_drain_2km_def rf_40 py_round_def)
qed

lemma format_2f_1: "format_2f 1 = ''1.00''"
  by (simp add: format_2f_def py_round_def dec_str.simps digit_def)

lemma format_2f_2: "format_2f 2 = ''2.00''"
  by (simp add: format_2f_def py_round_def dec_str.simps digit_def)

lemma pop_1001: "py_int (fmul (fl 500000) (fl (1001 / 1000))) = 500499"
  by (simp add: fmul_def py_int_def fl_eval)

lemma pop_988: "py_int (fmul (fl 500000) (fl (247 / 250))) = 494000"
  by (simp add: fmul_def py_int_def fl_eval)

lemma flood_delta_spatial:
  assumes "flood_points E = Some fp" and "2 \<le> length (roadPoints req)"
  shows "flood_delta E req l =
     Inr (hotspot_delta (interventionType req)
            (int (length (filter (\<lambda>row. case geometry row of
                                    None \<Rightarrow> False
                                  | Some pt \<Rightarrow>
                                      within_buffer E (map (\<lambda>p. (lng p, lat p)) (roadPoints req))
                                        100 pt) fp))))"
proof -
  from assms(2) have "roadPoints req \<noteq> []" and "length (roadPoints req) \<noteq> Suc 0"
    by auto
  with assms(1) show ?thesis
    by (simp add: flood_delta_def line_string_def bind_def Let_def)
qed

lemma hotspot_delta_table:
  "hotspot_delta Road c = c \<and> hotspot_delta Drain c = - 2 * c \<and>
   hotspot_delta Green c = - c \<and> hotspot_delta Restriction c = - 2 * c"
  by (simp add: hotspot_delta_def)

lemma flood_delta_fallback:
  assumes "flood_points E = None \<or> roadPoints req = []"
  shows "flood_delta E req l = Inr (heuristic_delta req l)"
  using assms by (auto simp: flood_delta_def split: option.splits)

lemma scenario_od_upd:
  "scenario_od E s (req\<lparr>approxLength := a\<rparr>) orig dest l b = scenario_od E s req orig dest l b"
  by (simp add: scenario_od_def)

lemma od_minutes_upd:
  "od_minutes (req\<lparr>approxLength := a\<rparr>) l lns b sc = od_minutes req l lns b sc"
  by (auto simp: od_minutes_def Let_def split: option.splits)

lemma heuristic_delta_upd:
  "heuristic_delta (req\<lparr>approxLength := a\<rparr>) l = heuristic_delta req l"
  by (simp add: heuristic_delta_def Let_def)

lemma traffic_branch_cong:
  "traffic_branch E s (req\<lparr>approxLength := a\<rparr>) l lns = traffic_branch E s req l lns"
  by (auto simp: traffic_branch_def bind_def scenario_od_upd od_minutes_upd
      split: option.splits prod.splits sum.splits)

lemma flood_delta_cong:
  "flood_delta E (req\<lparr>approxLength := a\<rparr>) l = flood_delta E req l"
  by (auto simp: flood_delta_def heuristic_delta_upd split: option.splits)

lemma traffic_branch_no_graph:
  assumes "road_graph E = None" and "origin req = Some orig" and "destination req = Some dest"
  shows "traffic_branch E s req l lns = Inr (od_minutes req l lns None None)"
  using assms
  by (simp add: traffic_branch_def compute_od_time_def scenario_od_def graph_truthy_def bind_def)

lemma length_far_atan:
  "compute_length_from_points env_far_atan (roadPoints req_zero_length) = Inr (6371 / 8192)"
proof -
  have "distance_km env_far_atan \<lparr>lat = 17, lng = 78\<rparr> \<lparr>lat = 18, lng = 78\<rparr> = Inr (6371 / 8192)"
    by (simp add: distance_km_def env_far_atan_def env_none_def py_sqrt_def bind_def
        fadd_def fsub_def fmul_def fl_eval)
  then show ?thesis
    by (simp add: compute_length_from_points_def req_zero_length_def bind_def fadd_def fl_eval)
qed

lemma heuristic_delta_zero_length: "heuristic_delta req_zero_length (6371 / 8192) = 8"
proof -
  have rf: "max (fl (1 / 100)) (fl (fl 100 / 100)) = 1"
    by (simp add: fl_eval)
  have f: "fmul (fmul (6371 / 8192) 1) 10 = 31855 / 4096"
    by (simp add: fmul_def fl_eval)
  show ?thesis
    by (simp add: heuristic_delta_def req_zero_length_def rf f py_round_def)
qed

text \<open>
  The example of the specification: no network, no dataset, a drain of 2 km at a
  rainfall of 40 gives the delta -12, 988 risk cells and a population of 494000.
\<close>

lemma simulate_drain_2km:
  "simulate env_none [] req_drain_2km =
     Inr \<lparr>traffic = \<lparr>minutesChange = 0, baselineMinutes = None, scenarioMinutes = None\<rparr>,
          flood = \<lparr>baselineHighRiskCells = 1000, scenarioHighRiskCells = 988,
                   baselinePop = 500000, scenarioPop = 494000\<rparr>,
          notes = ''Intervention length 2.00 km.''\<rparr>"
proof -
  have l: "length_km_of env_none req_drain_2km = Inr 2"
    by (simp add: length_km_of_def req_drain_2km_def)
  have t: "traffic_branch env_none [] req_drain_2km 2 (lanes_of req_drain_2km) =
      Inr \<lparr>minutesChange = 0, baselineMinutes = None, scenarioMinutes = None\<rparr>"
    by (rule traffic_branch_no_od) (simp add: req_drain_2km_def)
  have d: "flood_delta env_none req_drain_2km 2 = Inr (- 12)"
    by (simp add: flood_delta_def env_none_def heuristic_delta_drain_2km)
  show ?thesis
    unfolding simulate_steps [OF l t d] by (simp add: pop_988 format_2f_2)
qed

text \<open>
  C1: \<open>simulate\<close> raises for a valid request. With the dataset loaded and a path of
  exactly one point, the guard \<open>req.roadPoints\<close> of the flood branch holds and
  \<open>LineString\<close> raises on the single coordinate; nothing in \<open>simulate\<close> catches it.
\<close>

theorem simulate_single_point_raises:
  "simulate (env_hotspots 3) [] req_single_point = Inl LineStringError"
proof -
  have l: "length_km_of (env_hotspots 3) req_single_point = Inr 0"
    by (simp add: length_km_of_def compute_length_from_points_def req_single_point_def)
  have t: "traffic_branch (env_hotspots 3) [] req_single_point 0 (lanes_of req_single_point) =
      Inr \<lparr>minutesChange = 0, baselineMinutes = None, scenarioMinutes = None\<rparr>"
    by (rule traffic_branch_no_od) (simp add: req_single_point_def)
  have d: "flood_delta (env_hotspots 3) req_single_point 0 = Inl LineStringError"
    by (simp add: flood_delta_def line_string_def bind_def env_hotspots_def req_single_point_def)
  show ?thesis
    by (rule simulate_flood_raises [OF l t d])
qed

text \<open>
  C7: with the dataset loaded and a path of one point, which is a non-empty path, the
  flood branch does not count hotspots and sets no delta: it raises. For a path of
  two or more points the delta is the one of \<open>flood_delta_spatial\<close> and
  \<open>hotspot_delta_table\<close>.
\<close>

theorem flood_delta_single_point_raises:
  "flood_points (env_hotspots 3) = Some (map demo_hotspot [0..<3]) \<and>
   roadPoints req_single_point = [\<lparr>lat = 17, lng = 78\<rparr>] \<and>
   flood_delta (env_hotspots 3) req_single_point 0 = Inl LineStringError"
  by (simp add: flood_delta_def line_string_def bind_def env_hotspots_def req_single_point_def)

text \<open>
  C8: the scenario population is \<open>int(baseline_pop * (scenario_cells / baseline_cells))\<close>,
  a truncation of a float product, and not the rounded value: a road of 1 km at a
  rainfall of 10 gives the delta 1 and 1001 risk cells, \<open>1001 / 1000\<close> is the float
  just below 1.001, \<open>500000 * (1001 / 1000)\<close> is the float \<open>500499.99999999994\<close>, and the
  population is 500499, where rounding \<open>500000 * 1001 / 1000\<close> gives 500500.
\<close>

theorem simulate_road_1km:
  "simulate env_none [] req_road_1km =
     Inr \<lparr>traffic = \<lparr>minutesChange = 0, baselineMinutes = None, scenarioMinutes = None\<rparr>,
          flood = \<lparr>baselineHighRiskCells = 1000, scenarioHighRiskCells = 1001,
                   baselinePop = 500000, scenarioPop = 500499\<rparr>,
          notes = ''Intervention length 1.00 km.''\<rparr> \<and>
   py_round (500000 * 1001 / 1000) = 500500"
proof -
  have l: "length_km_of env_none req_road_1km = Inr 1"
    by (simp add: length_km_of_def req_road_1km_def)
  have t: "traffic_branch env_none [] req_road_1km 1 (lanes_of req_road_1km) =
      Inr \<lparr>minutesChange = 0, baselineMinutes = None, scenarioMinutes = None\<rparr>"
    by (rule traffic_branch_no_od) (simp add: req_road_1km_def)
  have d: "flood_delta env_none req_road_1km 1 = Inr 1"
    by (simp add: flood_delta_def env_none_def heuristic_delta_road_1km)
  have "py_round (500000 * 1001 / 1000) = 500500"
    by (simp add: py_round_def)
  then show ?thesis
    unfolding simulate_steps [OF l t d] by (simp add: pop_1001 format_2f_1)
qed

text \<open>
  C10: an \<open>approxLength\<close> of 0 is treated as an absent one. The length is then the
  polyline length of the path (0 for fewer than two points), the response is the one
  of the same request without \<open>approxLength\<close>, and this length is the one the flood
  fallback and the traffic heuristic use.
\<close>

theorem falsy_length_uses_path:
  assumes "approxLength req = None \<or> approxLength req = Some 0"
  shows "length_km_of E req = compute_length_from_points E (roadPoints req) \<and>
     (length (roadPoints req) < 2 \<longrightarrow> length_km_of E req = Inr 0) \<and>
     simulate E s req = simulate E s (req\<lparr>approxLength := None\<rparr>) \<and>
     (\<forall>l r. compute_length_from_points E (roadPoints req) = Inr l \<and> simulate E s req = Inr r \<longrightarrow>
        (flood_points E = None \<longrightarrow>
           scenarioHighRiskCells (flood r) = max 0 (1000 + heuristic_delta req l)) \<and>
        (road_graph E = None \<and> origin req \<noteq> None \<and> destination req \<noteq> None \<longrightarrow>
           traffic r = od_minutes req l (lanes_of req) None None))"
proof -
  have len: "length_km_of E req = compute_length_from_points E (roadPoints req)"
    using assms by (auto simp: length_km_of_def)
  have short: "length (roadPoints req) < 2 \<longrightarrow> length_km_of E req = Inr 0"
    unfolding len by (simp add: compute_length_from_points_def)
  have len': "length_km_of E (req\<lparr>approxLength := None\<rparr>) =
      compute_length_from_points E (roadPoints req)"
    by (simp add: length_km_of_def)
  have same: "simulate E s req = simulate E s (req\<lparr>approxLength := None\<rparr>)"
    by (simp add: simulate_def len len' traffic_branch_cong flood_delta_cong lanes_of_def)
  have uses: "scenarioHighRiskCells (flood r) = max 0 (1000 + heuristic_delta req l)"
    if "compute_length_from_points E (roadPoints req) = Inr l" and "simulate E s req = Inr r"
      and "flood_points E = None" for l r
    using that
    by (auto simp: simulate_def len bind_def Let_def flood_delta_fallback split: sum.splits)
  have uses2: "traffic r = od_minutes req l (lanes_of req) None None"
    if "compute_length_from_points E (roadPoints req) = Inr l" and "simulate E s req = Inr r"
      and "road_graph E = None" and "origin req \<noteq> None" and "destination req \<noteq> None" for l r
  proof -
    from that obtain orig dest where od: "origin req = Some orig" "destination req = Some dest"
      by auto
    show ?thesis
      using that(1,2) traffic_branch_no_graph [OF that(3) od, of s l "lanes_of req"]
      by (auto simp: simulate_def len bind_def Let_def split: sum.splits)
  qed
  from len short same uses uses2 show ?thesis
    by blast
qed

theorem falsy_length_uses_path_witness:
  "approxLength req_zero_length = Some 0 \<and>
   length_km_of env_far_atan req_zero_length = Inr (6371 / 8192) \<and>
   simulate env_far_atan [] req_zero_length =
     simulate env_far_atan [] (req_zero_length\<lparr>approxLength := None\<rparr>) \<and>
   map_sum id (scenarioHighRiskCells \<circ> flood) (simulate env_far_atan [] req_zero_length) = Inr 1008 \<and>
   map_sum id traffic (simulate env_far_atan [] req_zero_length) =
     Inr (od_minutes req_zero_length (6371 / 8192) 1 None None) \<and>
   approxLength (req_zero_length\<lparr>roadPoints := []\<rparr>) = Some 0 \<and>
   length_km_of env_far_atan (req_zero_length\<lparr>roadPoints := []\<rparr>) = Inr 0"
proof -
  have a: "approxLength req_zero_length = None \<or> approxLength req_zero_length = Some 0"
    by (simp add: req_zero_length_def)
  have b: "approxLength (req_zero_length\<lparr>roadPoints := []\<rparr>) = None \<or>
      approxLength (req_zero_length\<lparr>roadPoints := []\<rparr>) = Some 0"
    by (simp add: req_zero_length_def)
  note w = falsy_length_uses_path [OF a, of env_far_atan "[]"]
  note w0 = falsy_length_uses_path [OF b, of env_far_atan "[]"]
  have l: "length_km_of env_far_atan req_zero_length = Inr (6371 / 8192)"
    using w length_far_atan by simp
  have g: "road_graph env_far_atan = None" "flood_points env_far_atan = None"
    by (simp_all add: env_far_atan_def env_none_def)
  have od: "origin req_zero_length = Some \<lparr>lat = 17, lng = 78\<rparr>"
    "destination req_zero_length = Some \<lparr>lat = 18, lng = 78\<rparr>"
    by (simp_all add: req_zero_length_def)
  have ln: "lanes_of req_zero_length = 1"
    by (simp add: lanes_of_def req_zero_length_def)
  have t: "traffic_branch env_far_atan [] req_zero_length (6371 / 8192) (lanes_of req_zero_length) =
      Inr (od_minutes req_zero_length (6371 / 8192) (lanes_of req_zero_length) None None)"
    by (rule traffic_branch_no_graph [OF g(1) od])
  have d: "flood_delta env_far_atan req_zero_length (6371 / 8192) = Inr 8"
    using flood_delta_fallback [of env_far_atan req_zero_length "6371 / 8192"] g(2)
    by (simp add: heuristic_delta_zero_length)
  have z: "length_km_of env_far_atan (req_zero_length\<lparr>roadPoints := []\<rparr>) = Inr 0"
    using w0 by (simp add: compute_length_from_points_def)
  have same: "simulate env_far_atan [] req_zero_length =
      simulate env_far_atan [] (req_zero_length\<lparr>approxLength := None\<rparr>)"
    using w by blast
  note sim = simulate_steps [OF l t d]
  have cells: "map_sum id (scenarioHighRiskCells \<circ> flood) (simulate env_far_atan [] req_zero_length) =
      Inr 1008"
    by (simp add: sim)
  have tr: "map_sum id traffic (simulate env_far_atan [] req_zero_length) =
      Inr (od_minutes req_zero_length (6371 / 8192) 1 None None)"
    by (simp add: sim ln)
  have a0: "approxLength req_zero_length = Some 0"
    "approxLength (req_zero_length\<lparr>roadPoints := []\<rparr>) = Some 0"
    by (simp_all add: req_zero_length_def)
  from a0 l same cells tr z show ?thesis
    by blast
qed

section \<open>Routing: lemmas\<close>

lemma g_edges_add_node [simp]: "g_edges (add_node n G) = g_edges G"
  by (simp add: add_node_def)


lemma g_edges_add_edge [simp]: "g_edges (add_edge u v t G) = g_edges G @ [(u, v, t)]"
  by (simp add: add_edge_def Let_def)


lemma g_edges_overlay_graph: "g_edges (overlay_graph G es) = g_edges G @ overlay_pairs es"
  by (induction G es rule: overlay_graph.induct) (simp_all add: overlay_pairs_def)


lemma add_temp_edges_frame:
  "length (snd (add_temp_edges s G es)) = length s \<and>
   (\<forall>i. i \<noteq> G \<longrightarrow> snd (add_temp_edges s G es) ! i = s ! i)"
  by (induction s G es rule: add_temp_edges.induct) (auto simp: fdiv_def Let_def)

lemma add_temp_edges_ok:
  assumes "\<forall>(u, v, l, sp) \<in> set es. sp \<noteq> 0" and "G < length s"
  shows "add_temp_edges s G es = (Inr (), s[G := overlay_graph (s ! G) es])"
  using assms
  by (induction s G es rule: add_temp_edges.induct)
     (auto simp: fdiv_def Let_def overlay_time_def)

lemma compute_od_time_frame_lemma:
  "take (length s) (snd (compute_od_time E s orig dest ov)) = s"
proof (cases "road_graph E")
  case None
  then show ?thesis by (simp add: compute_od_time_def)
next
  case (Some a)
  let ?s1 = "s @ [s ! a]"
  have f: "length (snd (add_temp_edges ?s1 (length s) ov)) = Suc (length s)"
    "\<forall>i. i \<noteq> length s \<longrightarrow> snd (add_temp_edges ?s1 (length s) ov) ! i = ?s1 ! i"
    using add_temp_edges_frame [of ?s1 "length s" ov] by simp_all
  have "take (length s) (snd (add_temp_edges ?s1 (length s) ov)) = s"
    by (rule nth_equalityI) (use f in \<open>auto simp: nth_append\<close>)
  moreover have "snd (compute_od_time E s orig dest ov) = snd (add_temp_edges ?s1 (length s) ov)"
    using Some
    by (auto simp: compute_od_time_def graph_copy_def split: prod.splits sum.splits option.splits)
  ultimately show ?thesis by simp
qed

lemma compute_od_time_ok:
  assumes "road_graph E = Some a" and "a < length s" and "\<forall>(u, v, l, sp) \<in> set ov. sp \<noteq> 0"
  shows "compute_od_time E s orig dest ov =
     (Inr (case (nearest_nodes E (s ! a) (lng orig) (lat orig),
                 nearest_nodes E (s ! a) (lng dest) (lat dest)) of
             (Some u, Some v) \<Rightarrow> shortest_path_weight (overlay_graph (s ! a) ov) u v
           | _ \<Rightarrow> None),
      s @ [overlay_graph (s ! a) ov])"
proof -
  have "add_temp_edges (s @ [s ! a]) (length s) ov =
      (Inr (), (s @ [s ! a])[length s := overlay_graph ((s @ [s ! a]) ! length s) ov])"
    by (rule add_temp_edges_ok) (use assms in auto)
  then have t: "add_temp_edges (s @ [s ! a]) (length s) ov = (Inr (), s @ [overlay_graph (s ! a) ov])"
    by simp
  show ?thesis
    using assms(1,2)
    by (simp add: compute_od_time_def graph_copy_def t nearest_node_def nth_append
        split: option.splits)
qed





lemma overlay_time_1_18: "overlay_time 1 18 = 200"
  by (simp add: overlay_time_def fmul_def fl_eval)

lemma fadd_0_1000: "fadd 0 1000 = 1000"
  by (simp add: fadd_def fl_eval)

lemma fadd_0_200: "fadd 0 200 = 200"
  by (simp add: fadd_def fl_eval)

lemma two_node_base:
  "compute_od_time env_two_node [two_node_graph] pt_a pt_b [] =
     (Inr (Some 1000), [two_node_graph, two_node_graph])"
proof -
  have g: "road_graph env_two_node = Some 0"
    by (simp add: env_two_node_def)
  have w: "shortest_path_weight two_node_graph 1 2 = Some 1000"
    by (simp add: shortest_path_weight_def two_node_graph_def fadd_0_1000)
  have c: "compute_od_time env_two_node [two_node_graph] pt_a pt_b [] =
     (Inr (case (nearest_nodes env_two_node ([two_node_graph] ! 0) (lng pt_a) (lat pt_a),
                 nearest_nodes env_two_node ([two_node_graph] ! 0) (lng pt_b) (lat pt_b)) of
             (Some u, Some v) \<Rightarrow> shortest_path_weight (overlay_graph ([two_node_graph] ! 0) []) u v
           | _ \<Rightarrow> None),
      [two_node_graph] @ [overlay_graph ([two_node_graph] ! 0) []])"
    by (rule compute_od_time_ok [OF g]) simp_all
  show ?thesis
    unfolding c by (simp add: env_two_node_def pt_a_def pt_b_def w)
qed

lemma two_node_overlay_graph:
  "overlay_graph two_node_graph [(1, 2, 1, 18)] =
     \<lparr>g_nodes = [1, 2], g_edges = [(1, 2, 1000), (1, 2, 200), (2, 1, 200)]\<rparr>"
  by (simp add: overlay_time_1_18 add_edge_def add_node_def two_node_graph_def)

lemma two_node_overlay_weight:
  "shortest_path_weight
     \<lparr>g_nodes = [1, 2], g_edges = [(1, 2, 1000), (1, 2, 200), (2, 1, 200)]\<rparr> 1 2 = Some 200"
proof -
  have e: "fadd 1000 200 = 1200" "fadd 200 200 = 400" "fadd 1200 1000 = 2200"
    "fadd 1200 200 = 1400" "fadd 400 1000 = 1400" "fadd 400 200 = 600"
    by (simp_all add: fadd_def fl_eval)
  show ?thesis
    by (simp add: shortest_path_weight_def fadd_0_1000 fadd_0_200 e)
qed

lemma two_node_overlay:
  "compute_od_time env_two_node [two_node_graph] pt_a pt_b [(1, 2, 1, 18)] =
     (Inr (Some 200),
      [two_node_graph, \<lparr>g_nodes = [1, 2], g_edges = [(1, 2, 1000), (1, 2, 200), (2, 1, 200)]\<rparr>])"
proof -
  have g: "road_graph env_two_node = Some 0"
    by (simp add: env_two_node_def)
  have c: "compute_od_time env_two_node [two_node_graph] pt_a pt_b [(1, 2, 1, 18)] =
     (Inr (case (nearest_nodes env_two_node ([two_node_graph] ! 0) (lng pt_a) (lat pt_a),
                 nearest_nodes env_two_node ([two_node_graph] ! 0) (lng pt_b) (lat pt_b)) of
             (Some u, Some v) \<Rightarrow>
               shortest_path_weight (overlay_graph ([two_node_graph] ! 0) [(1, 2, 1, 18)]) u v
           | _ \<Rightarrow> None),
      [two_node_graph] @ [overlay_graph ([two_node_graph] ! 0) [(1, 2, 1, 18)]])"
    by (rule compute_od_time_ok [OF g]) simp_all
  show ?thesis
    unfolding c
    by (simp add: two_node_overlay_graph two_node_overlay_weight env_two_node_def
        pt_a_def pt_b_def del: overlay_graph.simps)
qed



text \<open>
  C9: \<open>compute_od_time\<close> does not change any graph that was in the store before the
  call, so the graph at the address \<open>road_graph\<close> is the same before and after. The
  overlay edges are added to the copy, which is the one new object of the store: each
  \<open>(u, v, length_km, speed)\<close> as the pair of edges \<open>(u, v, t)\<close> and \<open>(v, u, t)\<close> with
  \<open>t = (length_km / speed) * 3600\<close> in float arithmetic.
\<close>

theorem compute_od_time_frame:
  "take (length s) (snd (compute_od_time E s orig dest ov)) = s \<and>
   (a < length s \<longrightarrow> snd (compute_od_time E s orig dest ov) ! a = s ! a) \<and>
   (road_graph E = Some a \<and> a < length s \<and> (\<forall>(u, v, l, sp) \<in> set ov. sp \<noteq> 0) \<longrightarrow>
      (\<exists>G. snd (compute_od_time E s orig dest ov) = s @ [G] \<and>
         g_edges G = g_edges (s ! a) @
           concat (map (\<lambda>(u, v, l, sp). [(u, v, fmul (fl (l / sp)) 3600),
                                          (v, u, fmul (fl (l / sp)) 3600)]) ov)))"
proof -
  have 1: "take (length s) (snd (compute_od_time E s orig dest ov)) = s"
    by (rule compute_od_time_frame_lemma)
  have 2: "snd (compute_od_time E s orig dest ov) ! a = s ! a" if "a < length s"
  proof -
    have "take (length s) (snd (compute_od_time E s orig dest ov)) ! a = s ! a"
      by (simp only: 1)
    with that show ?thesis by simp
  qed
  have 3: "\<exists>G. snd (compute_od_time E s orig dest ov) = s @ [G] \<and>
         g_edges G = g_edges (s ! a) @
           concat (map (\<lambda>(u, v, l, sp). [(u, v, fmul (fl (l / sp)) 3600),
                                          (v, u, fmul (fl (l / sp)) 3600)]) ov)"
    if "road_graph E = Some a" "a < length s" "\<forall>(u, v, l, sp) \<in> set ov. sp \<noteq> 0"
    using g_edges_overlay_graph [of "s ! a" ov]
    by (simp add: compute_od_time_ok [OF that] overlay_pairs_def overlay_time_def)
  from 1 2 3 show ?thesis by blast
qed

theorem compute_od_time_frame_witness:
  "road_graph env_two_node = Some 0 \<and> (0::nat) < length [two_node_graph] \<and>
   snd (compute_od_time env_two_node [two_node_graph] pt_a pt_b [(1, 2, 1, 18)]) ! 0 =
     two_node_graph \<and>
   g_edges (snd (compute_od_time env_two_node [two_node_graph] pt_a pt_b [(1, 2, 1, 18)]) ! 1) =
     [(1, 2, 1000), (1, 2, 200), (2, 1, 200)]"
  using compute_od_time_frame [of "[two_node_graph]" env_two_node pt_a pt_b "[(1, 2, 1, 18)]" 0]
    overlay_time_1_18
  by (auto simp: env_two_node_def two_node_graph_def overlay_time_def)

section \<open>Traffic: lemmas\<close>

lemma simulate_traffic:
  assumes "simulate E s req = Inr r" and "length_km_of E req = Inr l"
  shows "traffic_branch E s req l (lanes_of req) = Inr (traffic r)"
  using assms by (auto simp: simulate_def bind_def Let_def split: sum.splits)

lemma od_minutes_heuristic:
  assumes "base_sec = None \<or> scen_sec = None"
  shows "od_minutes req l lns base_sec scen_sec =
     \<lparr>minutesChange =
        (if interventionType req = Restriction
         then fl (\<bar>- min 20 (fmul (fmul l (fl (of_int lns))) (fl (6 / 10)))\<bar> / 2)
         else - min 20 (fmul (fmul l (fl (of_int lns))) (fl (6 / 10)))),
      baselineMinutes = None, scenarioMinutes = None\<rparr>"
  using assms by (auto simp: od_minutes_def Let_def split: option.splits)

lemma scenario_od_unresolved:
  assumes "roadPoints req \<noteq> []"
    and "nearest_node E s (lat (hd (roadPoints req))) (lng (hd (roadPoints req))) = None \<or>
         nearest_node E s (lat (last (roadPoints req))) (lng (last (roadPoints req))) = None"
  shows "scenario_od E s req orig dest l base_sec = (Inr base_sec, s)"
  using assms by (auto simp: scenario_od_def split: option.splits)

text \<open>
  C2, as amended: with origin and destination supplied, whenever the baseline call or
  the scenario call of \<open>compute_od_time\<close> returns no time, the traffic delta is the
  heuristic \<open>-min(20, length_km * lanes * 0.6)\<close>, and for a restriction its absolute value
  halved. When a path end does not resolve to a node, there is no scenario call: the
  scenario time is the baseline time.
\<close>

theorem traffic_heuristic_on_failed_routing:
  "(origin req = Some orig \<and> destination req = Some dest \<and>
    length_km_of E req = Inr l \<and>
    compute_od_time E s orig dest [] = (Inr base_sec, s1) \<and>
    scenario_od E s1 req orig dest l base_sec = (Inr scen_sec, s2) \<and>
    (base_sec = None \<or> scen_sec = None) \<and>
    simulate E s req = Inr r \<longrightarrow>
    traffic r =
      \<lparr>minutesChange =
         (if interventionType req = Restriction
          then fl (\<bar>- min 20 (fmul (fmul l (fl (of_int (lanes_of req)))) (fl (6 / 10)))\<bar> / 2)
          else - min 20 (fmul (fmul l (fl (of_int (lanes_of req)))) (fl (6 / 10)))),
       baselineMinutes = None, scenarioMinutes = None\<rparr>) \<and>
   (roadPoints req \<noteq> [] \<and>
    (nearest_node E s1 (lat (hd (roadPoints req))) (lng (hd (roadPoints req))) = None \<or>
     nearest_node E s1 (lat (last (roadPoints req))) (lng (last (roadPoints req))) = None) \<longrightarrow>
    scenario_od E s1 req orig dest l base_sec = (Inr base_sec, s1))"
proof (intro conjI impI)
  assume a: "origin req = Some orig \<and> destination req = Some dest \<and>
    length_km_of E req = Inr l \<and>
    compute_od_time E s orig dest [] = (Inr base_sec, s1) \<and>
    scenario_od E s1 req orig dest l base_sec = (Inr scen_sec, s2) \<and>
    (base_sec = None \<or> scen_sec = None) \<and>
    simulate E s req = Inr r"
  then have "traffic_branch E s req l (lanes_of req) = Inr (traffic r)"
    using simulate_traffic by blast
  moreover from a have "traffic_branch E s req l (lanes_of req) =
      Inr (od_minutes req l (lanes_of req) base_sec scen_sec)"
    by (simp add: traffic_branch_def bind_def)
  ultimately have "traffic r = od_minutes req l (lanes_of req) base_sec scen_sec"
    by simp
  with a show "traffic r =
      \<lparr>minutesChange =
         (if interventionType req = Restriction
          then fl (\<bar>- min 20 (fmul (fmul l (fl (of_int (lanes_of req)))) (fl (6 / 10)))\<bar> / 2)
          else - min 20 (fmul (fmul l (fl (of_int (lanes_of req)))) (fl (6 / 10)))),
       baselineMinutes = None, scenarioMinutes = None\<rparr>"
    using od_minutes_heuristic [of base_sec scen_sec req l "lanes_of req"] by simp
next
  assume "roadPoints req \<noteq> [] \<and>
    (nearest_node E s1 (lat (hd (roadPoints req))) (lng (hd (roadPoints req))) = None \<or>
     nearest_node E s1 (lat (last (roadPoints req))) (lng (last (roadPoints req))) = None)"
  then show "scenario_od E s1 req orig dest l base_sec = (Inr base_sec, s1)"
    using scenario_od_unresolved by blast
qed

lemma simulate_restriction:
  "simulate env_none [] req_restriction =
     Inr \<lparr>traffic = od_minutes req_restriction 2 2 None None,
          flood = \<lparr>baselineHighRiskCells = 1000,
                   scenarioHighRiskCells = max 0 (1000 + heuristic_delta req_restriction 2),
                   baselinePop = 500000,
                   scenarioPop = py_int (fmul (fl 500000)
                     (fl (of_int (max 0 (1000 + heuristic_delta req_restriction 2)) / 1000)))\<rparr>,
          notes = ''Intervention length '' @ format_2f 2 @ '' km.''\<rparr>"
proof -
  have l: "length_km_of env_none req_restriction = Inr 2"
    by (simp add: length_km_of_def req_restriction_def)
  have ln: "lanes_of req_restriction = 2"
    by (simp add: lanes_of_def req_restriction_def)
  have t: "traffic_branch env_none [] req_restriction 2 (lanes_of req_restriction) =
      Inr (od_minutes req_restriction 2 (lanes_of req_restriction) None None)"
    by (rule traffic_branch_no_graph [where orig = pt_a and dest = pt_b])
      (simp_all add: env_none_def req_restriction_def)
  have d: "flood_delta env_none req_restriction 2 = Inr (heuristic_delta req_restriction 2)"
    by (rule flood_delta_fallback) (simp add: env_none_def)
  show ?thesis
    using simulate_steps [OF l t d] by (simp add: ln)
qed

lemma heuristic_restriction:
  "(if interventionType req_restriction = Restriction
    then fl (\<bar>- min 20 (fmul (fmul 2 (fl (of_int (lanes_of req_restriction)))) (fl (6 / 10)))\<bar> / 2)
    else - min 20 (fmul (fmul 2 (fl (of_int (lanes_of req_restriction)))) (fl (6 / 10)))) =
   5404319552844595 / 4503599627370496"
  by (simp add: req_restriction_def lanes_of_def fmul_def fl_eval)

theorem traffic_heuristic_on_failed_routing_witness:
  "origin req_restriction = Some pt_a \<and> destination req_restriction = Some pt_b \<and>
   length_km_of env_none req_restriction = Inr 2 \<and>
   compute_od_time env_none [] pt_a pt_b [] = (Inr None, []) \<and>
   scenario_od env_none [] req_restriction pt_a pt_b 2 None = (Inr None, []) \<and>
   map_sum id traffic (simulate env_none [] req_restriction) =
     Inr \<lparr>minutesChange = 5404319552844595 / 4503599627370496,
          baselineMinutes = None, scenarioMinutes = None\<rparr>"
proof -
  have o: "origin req_restriction = Some pt_a" "destination req_restriction = Some pt_b"
    by (simp_all add: req_restriction_def)
  have l: "length_km_of env_none req_restriction = Inr 2"
    by (simp add: length_km_of_def req_restriction_def)
  have c: "compute_od_time env_none [] pt_a pt_b [] = (Inr None, [])"
    by (simp add: compute_od_time_def env_none_def)
  have sc: "scenario_od env_none [] req_restriction pt_a pt_b 2 None = (Inr None, [])"
    by (simp add: scenario_od_def req_restriction_def)
  from simulate_restriction obtain r where r: "simulate env_none [] req_restriction = Inr r"
    by blast
  have "traffic r =
      \<lparr>minutesChange =
         (if interventionType req_restriction = Restriction
          then fl (\<bar>- min 20 (fmul (fmul 2 (fl (of_int (lanes_of req_restriction))))
                               (fl (6 / 10)))\<bar> / 2)
          else - min 20 (fmul (fmul 2 (fl (of_int (lanes_of req_restriction)))) (fl (6 / 10)))),
       baselineMinutes = None, scenarioMinutes = None\<rparr>"
    by (rule traffic_heuristic_on_failed_routing
        [of req_restriction pt_a pt_b env_none 2 "[]" None "[]" None "[]" r,
          THEN conjunct1, rule_format])
      (simp add: o l c sc r)
  then have "traffic r =
      \<lparr>minutesChange = 5404319552844595 / 4503599627370496,
       baselineMinutes = None, scenarioMinutes = None\<rparr>"
    unfolding heuristic_restriction .
  with o l c sc r show ?thesis
    by simp
qed

lemma od_minutes_same:
  "od_minutes req l lns (Some b) (Some b) =
     \<lparr>minutesChange = 0, baselineMinutes = Some (fl (b / 60)),
      scenarioMinutes = Some (fl (b / 60))\<rparr>"
  by (simp add: od_minutes_def Let_def fsub_def fl_def)

text \<open>
  The path end \<open>pt_c\<close> does not resolve, origin and destination do, and the baseline
  route exists: the traffic delta is 0 with both times set, and not the heuristic,
  which is -1.2 minutes.
\<close>

theorem unresolved_path_counterexample:
  "origin req_unresolved = Some pt_a \<and> destination req_unresolved = Some pt_b \<and>
   roadPoints req_unresolved = [pt_c] \<and>
   nearest_node env_two_node [two_node_graph] (lat pt_c) (lng pt_c) = None \<and>
   map_sum id traffic (simulate env_two_node [two_node_graph] req_unresolved) =
     Inr \<lparr>minutesChange = 0, baselineMinutes = Some (fl (1000 / 60)),
          scenarioMinutes = Some (fl (1000 / 60))\<rparr> \<and>
   - min 20 (fmul (fmul 2 (fl (of_int (lanes_of req_unresolved)))) (fl (6 / 10))) =
     - (5404319552844595 / 4503599627370496)"
proof -
  have o: "origin req_unresolved = Some pt_a" "destination req_unresolved = Some pt_b"
    "roadPoints req_unresolved = [pt_c]"
    by (simp_all add: req_unresolved_def)
  have n: "nearest_node env_two_node s (lat pt_c) (lng pt_c) = None" for s
    by (simp add: nearest_node_def env_two_node_def pt_c_def)
  have l: "length_km_of env_two_node req_unresolved = Inr 2"
    by (simp add: length_km_of_def req_unresolved_def)
  have sc: "scenario_od env_two_node [two_node_graph, two_node_graph] req_unresolved pt_a pt_b 2
      (Some 1000) = (Inr (Some 1000), [two_node_graph, two_node_graph])"
    by (rule scenario_od_unresolved) (simp_all add: o n)
  have t: "traffic_branch env_two_node [two_node_graph] req_unresolved 2 (lanes_of req_unresolved) =
      Inr \<lparr>minutesChange = 0, baselineMinutes = Some (fl (1000 / 60)),
           scenarioMinutes = Some (fl (1000 / 60))\<rparr>"
    by (simp add: traffic_branch_def o two_node_base sc bind_def od_minutes_same)
  have d: "flood_delta env_two_node req_unresolved 2 = Inr (heuristic_delta req_unresolved 2)"
    by (rule flood_delta_fallback) (simp add: env_two_node_def env_none_def)
  have h: "- min 20 (fmul (fmul 2 (fl (of_int (lanes_of req_unresolved)))) (fl (6 / 10))) =
     - (5404319552844595 / 4503599627370496)"
    by (simp add: lanes_of_def req_unresolved_def fmul_def fl_eval)
  show ?thesis
    unfolding simulate_steps [OF l t d] using o n h by simp
qed

end
